theory Spec2Isabelle
  imports Main
begin

section \<open>Values, objects and URL instances\<close>

text \<open>
  The embedding follows \<^verbatim>\<open>meaning-maker.ts\<close> (class \<^verbatim>\<open>MeaningMaker\<close>).
  JavaScript objects have identity, and two claims depend on it: the page metadata cache is a
  \<^verbatim>\<open>Map<URL, Thing>\<close>, which compares its keys by object identity, and
  \<^verbatim>\<open>Object.assign\<close> mutates its first argument. So URL objects carry the identity they
  got when they were constructed, and Things live in a store of objects addressed by reference.
\<close>

text \<open>
  A field value of a Thing, as JSON gives it: a string, a number, a boolean, null, or a nested
  object or array, which is a reference and is compared by identity. No value is a function.
\<close>

datatype jsval = JStr string | JNum int | JBool bool | JNull | JRef nat

type_synonym ref = nat

text \<open>The own properties of a plain object and their values.\<close>

type_synonym thing = "string \<rightharpoonup> jsval"

text \<open>
  The prototype of an object: \<open>ObjectPrototype\<close> is \<^verbatim>\<open>Object.prototype\<close> (or a builtin
  prototype above it, as \<^verbatim>\<open>Array.prototype\<close>), which has none of the data fields that the
  code reads, has the method \<^verbatim>\<open>hasOwnProperty\<close> and has the accessor \<^verbatim>\<open>__proto__\<close>;
  \<open>NullPrototype\<close> is no prototype; \<open>ObjectRef\<close> is another object of the store. An object
  is ordinary: extensible, its properties own, enumerable, writable data properties.
\<close>

datatype prototype = ObjectPrototype | NullPrototype | ObjectRef ref

record obj =
  props :: thing
  proto :: prototype

text \<open>
  A URL object: \<open>uid\<close> is the identity of the instance, \<open>href\<close> and \<open>origin\<close> are what the
  platform's parser computed from the string.
\<close>

record url =
  uid :: nat
  href :: string
  origin :: string

datatype js_error = TypeError | Thrown

text \<open>
  Modelled from the spec: the type of \<^verbatim>\<open>result.content\<close> and the imported test
  \<^verbatim>\<open>typeIsThing\<close> (\<^verbatim>\<open>core-schema-org.js\<close>). The content of a NearbyResult is ``either a Thing
  or a string'', and the field is optional: it is missing, a string, or a reference to a
  Thing object, and \<^verbatim>\<open>typeIsThing\<close> holds of the last only.
\<close>

datatype content = Absent | Raw string | Structured ref

text \<open>
  Modelled from the spec: the declarations of \<^verbatim>\<open>NearbyResult\<close>, \<^verbatim>\<open>NearbyResultDelta\<close>
  (\<^verbatim>\<open>artifact-dealer.js\<close>) and \<^verbatim>\<open>Marker\<close> (\<^verbatim>\<open>marker.js\<close>): a result has a content and the
  catalog entry it comes from, a delta is \<^verbatim>\<open>{ found, lost }\<close>, a marker has a string
  \<^verbatim>\<open>value\<close>. The loop of the enrichment step assigns to \<^verbatim>\<open>result.content\<close> in place; the
  model returns the updated results in the same order.
\<close>

record 'a NearbyResult =
  content :: content
  artifact :: 'a

record 'a NearbyResultDelta =
  found :: "'a NearbyResult list"
  lost :: "'a NearbyResult list"

record marker =
  marker_type :: string
  marker_value :: string

text \<open>
  The calls that leave the class, in the order they happen: a call of the Document Fetcher
  with the URL instance it was given, and a call of the dealer's \<^verbatim>\<open>markerFound\<close> with the
  content the artifact store had at that moment.
\<close>

datatype 'a event = Fetch url | DealerMarkerFound marker "'a list"

section \<open>The platform and the collaborators\<close>

text \<open>
  Modelled from the spec: the collaborators that the file imports, by their contracts in the
  specification's list of external interfaces. What the file imports or takes from the
  browser is a parameter of the model:
  \<^item> \<open>parse_url\<close> is \<^verbatim>\<open>new URL(s)\<close> on a string with no base argument: the serialised href and
    origin, or \<open>None\<close> where the constructor throws;
  \<^item> \<open>to_string\<close> is the conversion to a string that the constructor applies to an argument
    that is no string, in the store of objects it is given: the string, or the error it throws;
  \<^item> \<open>location_origin\<close> is \<^verbatim>\<open>window.location.origin\<close>;
  \<^item> \<open>fetchAsDocument\<close> is the Document Fetcher: given what has happened so far and a URL, a
    document or \<open>None\<close> (null) when it fails;
  \<^item> \<open>extractPageMetadata\<close> is the Metadata Extractor: the own properties of the plain object
    it builds;
  \<^item> \<open>fromElement\<close> is the Artifact Loader on a document: the artifacts, and the plain objects
    it creates for their content, given the first free reference;
  \<^item> \<open>dealer_markerFound\<close> is the Artifact Dealer: its answer from the content of the store it
    was given in the constructor, the marker and its own state.
\<close>

record ('d, 'a, 's) platform =
  parse_url :: "string \<Rightarrow> (string \<times> string) option"
  to_string :: "(ref \<Rightarrow> obj) \<Rightarrow> jsval \<Rightarrow> js_error + string"
  location_origin :: string
  fetchAsDocument :: "'a event list \<Rightarrow> url \<Rightarrow> 'd option"
  extractPageMetadata :: "'d \<Rightarrow> url \<Rightarrow> thing"
  fromElement :: "'d \<Rightarrow> url \<Rightarrow> ref \<Rightarrow> 'a list \<times> thing list"
  dealer_markerFound :: "'a list \<Rightarrow> marker \<Rightarrow> 's \<Rightarrow> 'a NearbyResultDelta \<times> 's"

text \<open>
  The state: the counters that give new URL instances and new objects their identity, the
  object store, the fields of \<^verbatim>\<open>MeaningMaker\<close> (\<open>pageMetadataCache\<close>, keyed by the identity
  of the URL instance; \<open>artstore\<close>; \<open>artdealer\<close>) and the log of outside calls.
\<close>

record ('a, 's) state =
  next_url :: nat
  next_ref :: ref
  heap :: "ref \<Rightarrow> obj"
  pageMetadataCache :: "nat \<rightharpoonup> ref"
  artstore :: "'a list"
  artdealer :: 's
  trace :: "'a event list"

type_synonym ShouldFetchArtifactsFromCallback = "url \<Rightarrow> js_error + bool"

text \<open>The optional second argument of the public calls: absent, a callback, or a list of origins.\<close>

datatype policy_arg =
  NoPolicy
  | PolicyFn ShouldFetchArtifactsFromCallback
  | PolicyOrigins "string list"

section \<open>The Fetch Policy Gate\<close>

text \<open>
  \<^verbatim>\<open>normalizeShouldFetchFn\<close>. An absent argument gives the same-origin test. A list gives
  \<^verbatim>\<open>!!origins.find(o => o === url.origin)\<close>: \<^verbatim>\<open>find\<close> returns the element found, and the
  empty string is falsy.
\<close>

definition normalizeShouldFetchFn ::
  "('d, 'a, 's) platform \<Rightarrow> policy_arg \<Rightarrow> ShouldFetchArtifactsFromCallback" where
  "normalizeShouldFetchFn env shouldFetchArtifactsFrom =
     (case shouldFetchArtifactsFrom of
        NoPolicy \<Rightarrow> (\<lambda>u. Inr (origin u = location_origin env))
      | PolicyOrigins origins \<Rightarrow>
          (\<lambda>u. Inr (case find (\<lambda>x. x = origin u) origins of
                       None \<Rightarrow> False
                     | Some x \<Rightarrow> x \<noteq> []))
      | PolicyFn f \<Rightarrow> f)"

text \<open>\<^verbatim>\<open>new URL(potentialUrl)\<close>: a new instance, or the constructor's TypeError.\<close>

definition newURL ::
  "('d, 'a, 's) platform \<Rightarrow> string \<Rightarrow> ('a, 's) state \<Rightarrow> (js_error + url) \<times> ('a, 's) state" where
  "newURL env s st =
     (case parse_url env s of
        None \<Rightarrow> (Inl TypeError, st)
      | Some (h, og) \<Rightarrow>
          (Inr \<lparr>uid = next_url st, href = h, origin = og\<rparr>,
           st\<lparr>next_url := Suc (next_url st)\<rparr>))"

text \<open>
  The body of the \<^verbatim>\<open>try\<close> block of \<^verbatim>\<open>checkIsFetchableURL\<close>: \<open>Inr (Some url)\<close> is its
  \<^verbatim>\<open>return url\<close>, \<open>Inr None\<close> is leaving the block at its end, \<open>Inl\<close> is a throw, by the
  constructor or by the callback.
\<close>

definition checkIsFetchableURL_try ::
  "('d, 'a, 's) platform \<Rightarrow> string \<Rightarrow> ShouldFetchArtifactsFromCallback \<Rightarrow> ('a, 's) state
     \<Rightarrow> (js_error + url option) \<times> ('a, 's) state" where
  "checkIsFetchableURL_try env potentialUrl shouldFetchArtifactsFrom st =
     (case newURL env potentialUrl st of
        (Inl e, st') \<Rightarrow> (Inl e, st')
      | (Inr u, st') \<Rightarrow>
          (case shouldFetchArtifactsFrom u of
             Inl e \<Rightarrow> (Inl e, st')
           | Inr b \<Rightarrow> (Inr (if b then Some u else None), st')))"

text \<open>\<^verbatim>\<open>checkIsFetchableURL\<close>: the \<^verbatim>\<open>catch\<close> falls through to \<^verbatim>\<open>return null\<close>.\<close>

definition checkIsFetchableURL ::
  "('d, 'a, 's) platform \<Rightarrow> string \<Rightarrow> ShouldFetchArtifactsFromCallback \<Rightarrow> ('a, 's) state
     \<Rightarrow> url option \<times> ('a, 's) state" where
  "checkIsFetchableURL env potentialUrl shouldFetchArtifactsFrom st =
     (case checkIsFetchableURL_try env potentialUrl shouldFetchArtifactsFrom st of
        (Inl e, st') \<Rightarrow> (None, st')
      | (Inr (Some u), st') \<Rightarrow> (Some u, st')
      | (Inr None, st') \<Rightarrow> (None, st'))"

section \<open>The metadata cache and the fetch\<close>

text \<open>A new plain object gets the next free reference; its prototype is \<^verbatim>\<open>Object.prototype\<close>.\<close>

definition alloc :: "thing \<Rightarrow> ('a, 's) state \<Rightarrow> ref \<times> ('a, 's) state" where
  "alloc t st =
     (next_ref st,
      st\<lparr>next_ref := Suc (next_ref st),
         heap := (heap st)(next_ref st := \<lparr>props = t, proto = ObjectPrototype\<rparr>)\<rparr>)"

fun alloc_all :: "thing list \<Rightarrow> ('a, 's) state \<Rightarrow> ('a, 's) state" where
  "alloc_all [] st = st"
| "alloc_all (t # ts) st = alloc_all ts (snd (alloc t st))"

text \<open>\<^verbatim>\<open>await fetchAsDocument(url)\<close>: the call is logged, the platform answers.\<close>

definition fetchDoc ::
  "('d, 'a, 's) platform \<Rightarrow> url \<Rightarrow> ('a, 's) state \<Rightarrow> 'd option \<times> ('a, 's) state" where
  "fetchDoc env u st = (fetchAsDocument env (trace st) u, st\<lparr>trace := trace st @ [Fetch u]\<rparr>)"

text \<open>
  \<^verbatim>\<open>savePageMetadata\<close>: the extractor builds a new object, \<^verbatim>\<open>Map.set\<close> stores it under the
  URL instance, and the same object is returned.
\<close>

definition savePageMetadata ::
  "('d, 'a, 's) platform \<Rightarrow> 'd \<Rightarrow> url \<Rightarrow> ('a, 's) state \<Rightarrow> ref \<times> ('a, 's) state" where
  "savePageMetadata env doc u st =
     (case alloc (extractPageMetadata env doc u) st of
        (pageMetadata, st') \<Rightarrow>
          (pageMetadata, st'\<lparr>pageMetadataCache := (pageMetadataCache st')(uid u \<mapsto> pageMetadata)\<rparr>))"

text \<open>
  The second half of \<^verbatim>\<open>tryExtractPageMetadata\<close>, from the \<^verbatim>\<open>has\<close> test on: the cached
  Thing if the URL instance is a key of the cache, else the fetch, and on success the
  extraction and the cache entry.
\<close>

definition lookupOrFetch ::
  "('d, 'a, 's) platform \<Rightarrow> url \<Rightarrow> ('a, 's) state \<Rightarrow> ref option \<times> ('a, 's) state" where
  "lookupOrFetch env u st =
     (case pageMetadataCache st (uid u) of
        Some cached \<Rightarrow> (Some cached, st)
      | None \<Rightarrow>
          (case fetchDoc env u st of
             (None, st') \<Rightarrow> (None, st')
           | (Some doc, st') \<Rightarrow>
               (case savePageMetadata env doc u st' of
                  (pageMetadata, st'') \<Rightarrow> (Some pageMetadata, st''))))"

definition tryExtractPageMetadata ::
  "('d, 'a, 's) platform \<Rightarrow> string \<Rightarrow> ShouldFetchArtifactsFromCallback \<Rightarrow> ('a, 's) state
     \<Rightarrow> ref option \<times> ('a, 's) state" where
  "tryExtractPageMetadata env potentialUrl shouldFetchArtifactsFrom st =
     (case checkIsFetchableURL env potentialUrl shouldFetchArtifactsFrom st of
        (None, st') \<Rightarrow> (None, st')
      | (Some u, st') \<Rightarrow> lookupOrFetch env u st')"

section \<open>Reading and writing properties\<close>

text \<open>
  A property read \<^verbatim>\<open>o.k\<close> looks at the object's own properties and then along its
  prototypes. Prototype chains have no cycle and every object of a chain is in the store, so
  a chain is no longer than the number of objects: the walks below take that number as their
  bound, and stop with ``not found'' where it is used up.
\<close>

text \<open>
  \<^verbatim>\<open>o[k]\<close> for a key that \<^verbatim>\<open>Object.prototype\<close> does not have (\<^verbatim>\<open>url\<close>, \<^verbatim>\<open>@type\<close>):
  the value, or \<open>None\<close> for \<^verbatim>\<open>undefined\<close>.
\<close>

fun get_from :: "nat \<Rightarrow> (ref \<Rightarrow> obj) \<Rightarrow> ref \<Rightarrow> string \<Rightarrow> jsval option" where
  "get_from 0 h r k = props (h r) k"
| "get_from (Suc n) h r k =
     (case props (h r) k of
        Some v \<Rightarrow> Some v
      | None \<Rightarrow> (case proto (h r) of ObjectRef q \<Rightarrow> get_from n h q k | _ \<Rightarrow> None))"

definition get_property :: "('a, 's) state \<Rightarrow> ref \<Rightarrow> string \<Rightarrow> jsval option" where
  "get_property st r k = get_from (next_ref st) (heap st) r k"

text \<open>
  Whether the lookup of a key that \<^verbatim>\<open>Object.prototype\<close> defines (\<^verbatim>\<open>hasOwnProperty\<close>,
  \<^verbatim>\<open>__proto__\<close>), started at a prototype, arrives at \<^verbatim>\<open>Object.prototype\<close>: no object on the
  way has a data property of that name, and the chain does not end in null.
\<close>

fun reaches_builtin :: "nat \<Rightarrow> (ref \<Rightarrow> obj) \<Rightarrow> prototype \<Rightarrow> string \<Rightarrow> bool" where
  "reaches_builtin n h ObjectPrototype k = True"
| "reaches_builtin n h NullPrototype k = False"
| "reaches_builtin 0 h (ObjectRef q) k = False"
| "reaches_builtin (Suc n) h (ObjectRef q) k =
     (props (h q) k = None \<and> reaches_builtin n h (proto (h q)) k)"

text \<open>
  \<^verbatim>\<open>o.hasOwnProperty\<close> is the builtin method when neither the object nor a prototype object
  has a field of that name and the chain arrives at \<^verbatim>\<open>Object.prototype\<close>. Otherwise it is a
  data value or \<^verbatim>\<open>undefined\<close>, and calling it throws a TypeError.
\<close>

definition hasOwnProperty_callable :: "('a, 's) state \<Rightarrow> ref \<Rightarrow> bool" where
  "hasOwnProperty_callable st r \<longleftrightarrow>
     props (heap st r) ''hasOwnProperty'' = None
     \<and> reaches_builtin (next_ref st) (heap st) (proto (heap st r)) ''hasOwnProperty''"

text \<open>Whether an object is on the chain that starts at a prototype.\<close>

fun chain_contains :: "nat \<Rightarrow> (ref \<Rightarrow> obj) \<Rightarrow> prototype \<Rightarrow> ref \<Rightarrow> bool" where
  "chain_contains n h ObjectPrototype t = False"
| "chain_contains n h NullPrototype t = False"
| "chain_contains 0 h (ObjectRef q) t = (q = t)"
| "chain_contains (Suc n) h (ObjectRef q) t = (q = t \<or> chain_contains n h (proto (h q)) t)"

text \<open>Truthiness of a value.\<close>

fun truthy :: "jsval \<Rightarrow> bool" where
  "truthy (JStr s) = (s \<noteq> [])"
| "truthy (JNum n) = (n \<noteq> 0)"
| "truthy (JBool b) = b"
| "truthy JNull = False"
| "truthy (JRef r) = True"

text \<open>
  The setter of the accessor \<^verbatim>\<open>Object.prototype.__proto__\<close>, called on the target with a
  value: an object or null becomes the target's prototype, unless it is the prototype already;
  a chain that would come back to the target is refused with a TypeError; any other value is
  ignored. The target gets no own property.
\<close>

definition proto_setter :: "nat \<Rightarrow> (ref \<Rightarrow> obj) \<Rightarrow> ref \<Rightarrow> jsval \<Rightarrow> obj \<Rightarrow> js_error + obj" where
  "proto_setter n h target v T =
     (case v of
        JRef q \<Rightarrow>
          if proto T = ObjectRef q then Inr T
          else if chain_contains n h (ObjectRef q) target then Inl TypeError
          else Inr (T\<lparr>proto := ObjectRef q\<rparr>)
      | JNull \<Rightarrow> Inr (T\<lparr>proto := NullPrototype\<rparr>)
      | _ \<Rightarrow> Inr T)"

text \<open>
  \<^verbatim>\<open>Object.assign(target, source)\<close> assigns (\<^verbatim>\<open>target[k] = source[k]\<close>) every own property
  of the source to the target and returns the target. For every key but \<^verbatim>\<open>__proto__\<close> the
  assignment leaves the target with an own property of that value. For the key
  \<^verbatim>\<open>__proto__\<close> it does so only when the target has such an own property already or the
  lookup along the target's prototypes does not arrive at the accessor of
  \<^verbatim>\<open>Object.prototype\<close>; otherwise the assignment calls the accessor's setter. The outcome does
  not depend on the order of the keys, except for what was already written when the setter
  throws: of a call that throws, the model keeps the error only.
\<close>

definition object_assign :: "ref \<Rightarrow> ref \<Rightarrow> ('a, 's) state \<Rightarrow> js_error + ('a, 's) state" where
  "object_assign target source st =
     (let T = heap st target; S = heap st source in
      case props S ''__proto__'' of
        None \<Rightarrow> Inr (st\<lparr>heap := (heap st)(target := T\<lparr>props := props T ++ props S\<rparr>)\<rparr>)
      | Some v \<Rightarrow>
          if props T ''__proto__'' \<noteq> None
             \<or> \<not> reaches_builtin (next_ref st) (heap st) (proto T) ''__proto__''
          then Inr (st\<lparr>heap := (heap st)(target := T\<lparr>props := props T ++ props S\<rparr>)\<rparr>)
          else
            (case proto_setter (next_ref st) (heap st) target v T of
               Inl e \<Rightarrow> Inl e
             | Inr T' \<Rightarrow>
                 Inr (st\<lparr>heap := (heap st)
                        (target := T'\<lparr>props := props T ++ (props S)(''__proto__'' := None)\<rparr>)\<rparr>)))"

section \<open>The enrichment step\<close>

text \<open>
  \<^verbatim>\<open>tryExtractPageMetadata(result.content.url, ...)\<close>: the parameter is declared a string,
  and the value that arrives is whatever the field holds. \<^verbatim>\<open>new URL\<close> converts an argument
  that is no string inside the \<^verbatim>\<open>try\<close> block of the gate, so a conversion that throws ends
  as null like a string that does not parse, and a conversion that succeeds continues with the
  string.
\<close>

definition tryExtractPageMetadata_value ::
  "('d, 'a, 's) platform \<Rightarrow> jsval \<Rightarrow> ShouldFetchArtifactsFromCallback \<Rightarrow> ('a, 's) state
     \<Rightarrow> ref option \<times> ('a, 's) state" where
  "tryExtractPageMetadata_value env potentialUrl shouldFetchArtifactsFrom st =
     (case potentialUrl of
        JStr s \<Rightarrow> tryExtractPageMetadata env s shouldFetchArtifactsFrom st
      | _ \<Rightarrow>
          (case to_string env (heap st) potentialUrl of
             Inl e \<Rightarrow> (None, st)
           | Inr s \<Rightarrow> tryExtractPageMetadata env s shouldFetchArtifactsFrom st))"

text \<open>
  The body of the loop of \<^verbatim>\<open>attemptEnrichContentWithPageMetadata\<close>, for one result; \<open>Inl\<close> is
  an error that leaves the loop and rejects the caller's promise.
  \<^verbatim>\<open>!result.content\<close> holds for a missing content and for the empty string. In the Thing
  branch \<^verbatim>\<open>result.content.url\<close> is a property read and is tested for truthiness; only then
  \<^verbatim>\<open>result.content.hasOwnProperty('name')\<close> is evaluated: the method is looked up on the
  content itself, which throws where the lookup does not give the builtin, and the builtin
  asks whether \<^verbatim>\<open>name\<close> is an own property. \<^verbatim>\<open>===\<close> on the two \<^verbatim>\<open>@type\<close> reads compares
  what is there, two missing fields being equal.
\<close>

definition enrichResult ::
  "('d, 'a, 's) platform \<Rightarrow> ShouldFetchArtifactsFromCallback \<Rightarrow> 'a NearbyResult \<Rightarrow> ('a, 's) state
     \<Rightarrow> js_error + ('a NearbyResult \<times> ('a, 's) state)" where
  "enrichResult env shouldFetchArtifactsFrom result st =
     (case content result of
        Absent \<Rightarrow> Inr (result, st)
      | Raw s \<Rightarrow>
          if s = [] then Inr (result, st)
          else
            (case tryExtractPageMetadata env s shouldFetchArtifactsFrom st of
               (Some pageMetadata, st') \<Rightarrow> Inr (result\<lparr>content := Structured pageMetadata\<rparr>, st')
             | (None, st') \<Rightarrow> Inr (result, st'))
      | Structured r \<Rightarrow>
          (case get_property st r ''url'' of
             None \<Rightarrow> Inr (result, st)
           | Some v \<Rightarrow>
               if \<not> truthy v then Inr (result, st)
               else if \<not> hasOwnProperty_callable st r then Inl TypeError
               else if props (heap st r) ''name'' \<noteq> None then Inr (result, st)
               else
                 (case tryExtractPageMetadata_value env v shouldFetchArtifactsFrom st of
                    (None, st') \<Rightarrow> Inr (result, st')
                  | (Some pageMetadata, st') \<Rightarrow>
                      if get_property st' pageMetadata ''@type'' = get_property st' r ''@type'' then
                        (case object_assign pageMetadata r st' of
                           Inl e \<Rightarrow> Inl e
                         | Inr st'' \<Rightarrow> Inr (result\<lparr>content := Structured pageMetadata\<rparr>, st''))
                      else Inr (result, st'))))"

fun attemptEnrichContentWithPageMetadata ::
  "('d, 'a, 's) platform \<Rightarrow> 'a NearbyResult list \<Rightarrow> ShouldFetchArtifactsFromCallback
     \<Rightarrow> ('a, 's) state \<Rightarrow> js_error + ('a NearbyResult list \<times> ('a, 's) state)" where
  "attemptEnrichContentWithPageMetadata env [] shouldFetchArtifactsFrom st = Inr ([], st)"
| "attemptEnrichContentWithPageMetadata env (result # results) shouldFetchArtifactsFrom st =
     (case enrichResult env shouldFetchArtifactsFrom result st of
        Inl e \<Rightarrow> Inl e
      | Inr (result', st') \<Rightarrow>
          (case attemptEnrichContentWithPageMetadata env results shouldFetchArtifactsFrom st' of
             Inl e \<Rightarrow> Inl e
           | Inr (results', st'') \<Rightarrow> Inr (result' # results', st'')))"

section \<open>The coordinator\<close>

text \<open>
  \<^verbatim>\<open>saveArtifacts\<close>: each artifact is added to the store, in order.
  Modelled from the spec: \<^verbatim>\<open>LocalArtifactStore.addArtifact\<close>; the store ``holds artifact
  definitions'', and adding one puts it at the end of what the store holds.
\<close>

fun saveArtifacts :: "'a list \<Rightarrow> ('a, 's) state \<Rightarrow> ('a, 's) state" where
  "saveArtifacts [] st = st"
| "saveArtifacts (a # artifacts) st = saveArtifacts artifacts (st\<lparr>artstore := artstore st @ [a]\<rparr>)"

definition loadArtifactsFromHtmlUrl ::
  "('d, 'a, 's) platform \<Rightarrow> url \<Rightarrow> ('a, 's) state \<Rightarrow> 'a list \<times> ('a, 's) state" where
  "loadArtifactsFromHtmlUrl env u st =
     (case fetchDoc env u st of
        (None, st1) \<Rightarrow> ([], st1)
      | (Some doc, st1) \<Rightarrow>
          (case savePageMetadata env doc u st1 of
             (pageMetadata, st2) \<Rightarrow>
               (case fromElement env doc u (next_ref st2) of
                  (artifacts, things) \<Rightarrow>
                    (artifacts, saveArtifacts artifacts (alloc_all things st2)))))"

text \<open>\<^verbatim>\<open>this.artdealer.markerFound(marker)\<close>: the dealer looks into the store as it is now.\<close>

definition artdealer_markerFound ::
  "('d, 'a, 's) platform \<Rightarrow> marker \<Rightarrow> ('a, 's) state \<Rightarrow> 'a NearbyResultDelta \<times> ('a, 's) state" where
  "artdealer_markerFound env m st =
     (case dealer_markerFound env (artstore st) m (artdealer st) of
        (results, d) \<Rightarrow>
          (results, st\<lparr>artdealer := d, trace := trace st @ [DealerMarkerFound m (artstore st)]\<rparr>))"

text \<open>
  \<^verbatim>\<open>markerFound\<close>; an error of the enrichment step rejects the promise, and \<open>Inl\<close> is that
  outcome.
\<close>

definition markerFound ::
  "('d, 'a, 's) platform \<Rightarrow> marker \<Rightarrow> policy_arg \<Rightarrow> ('a, 's) state
     \<Rightarrow> js_error + ('a NearbyResultDelta \<times> ('a, 's) state)" where
  "markerFound env m shouldFetchArtifactsFrom st =
     (let shouldFetch = normalizeShouldFetchFn env shouldFetchArtifactsFrom in
      case checkIsFetchableURL env (marker_value m) shouldFetch st of
        (url, st1) \<Rightarrow>
          (let st2 = (case url of
                        Some u \<Rightarrow> snd (loadArtifactsFromHtmlUrl env u st1)
                      | None \<Rightarrow> st1)
           in case artdealer_markerFound env m st2 of
                (results, st3) \<Rightarrow>
                  (case attemptEnrichContentWithPageMetadata env (found results) shouldFetch st3 of
                     Inl e \<Rightarrow> Inl e
                   | Inr (found', st4) \<Rightarrow> Inr (results\<lparr>found := found'\<rparr>, st4))))"

section \<open>States the program can reach\<close>

text \<open>
  The state of a new \<^verbatim>\<open>MeaningMaker\<close> before anything was constructed: no URL instance, no
  object, an empty cache, an empty store, nothing logged.
\<close>

definition initial :: "'s \<Rightarrow> ('a, 's) state" where
  "initial d =
     \<lparr>next_url = 0, next_ref = 0, heap = (\<lambda>_. \<lparr>props = Map.empty, proto = ObjectPrototype\<rparr>),
      pageMetadataCache = Map.empty, artstore = [], artdealer = d, trace = []\<rparr>"

text \<open>
  Every key of the cache is a URL instance that was constructed, and every cached Thing an
  object that was created.
\<close>

definition cache_wf :: "('a, 's) state \<Rightarrow> bool" where
  "cache_wf st \<longleftrightarrow>
     (\<forall>k r. pageMetadataCache st k = Some r \<longrightarrow> k < next_url st \<and> r < next_ref st)"


section \<open>A small platform to run the model on\<close>

text \<open>
  Five strings parse as absolute URLs, one of them written in capitals that the parser
  normalises; three addresses have a page behind them. A document is the pair of the type and
  the name its metadata will have. The loader finds one artifact per page, named after the
  page's address; the dealer reports every stored artifact as found, with the artifact's name
  as string content. The objects of this platform are plain objects.
\<close>

definition example_urls :: "(string \<times> (string \<times> string)) list" where
  "example_urls =
     [(''https://example.com/e1'', (''https://example.com/e1'', ''https://example.com'')),
      (''HTTPS://EXAMPLE.COM/e1'', (''https://example.com/e1'', ''https://example.com'')),
      (''https://example.com/p1'', (''https://example.com/p1'', ''https://example.com'')),
      (''https://example.com/gone'', (''https://example.com/gone'', ''https://example.com'')),
      (''https://other.example/x'', (''https://other.example/x'', ''https://other.example''))]"

definition example_pages :: "(string \<times> (string \<times> string)) list" where
  "example_pages =
     [(''https://example.com/e1'', (''Event'', ''Launch'')),
      (''https://example.com/p1'', (''Place'', ''Plaza'')),
      (''https://other.example/x'', (''Event'', ''Elsewhere''))]"

text \<open>Decimal digits of a natural number.\<close>

function dec :: "nat \<Rightarrow> string" where
  "dec n = (if n < 10 then [char_of (48 + n)] else dec (n div 10) @ [char_of (48 + n mod 10)])"
  by pat_completeness auto
termination
  by (relation "measure id") auto

declare dec.simps [simp del]

definition example_to_string :: "(ref \<Rightarrow> obj) \<Rightarrow> jsval \<Rightarrow> js_error + string" where
  "example_to_string h v =
     (case v of
        JStr s \<Rightarrow> Inr s
      | JNum n \<Rightarrow> Inr (if n < 0 then CHR ''-'' # dec (nat (- n)) else dec (nat n))
      | JBool b \<Rightarrow> Inr (if b then ''true'' else ''false'')
      | JNull \<Rightarrow> Inr ''null''
      | JRef r \<Rightarrow>
          if props (h r) ''toString'' = None \<and> proto (h r) = ObjectPrototype
          then Inr ''[object Object]'' else Inl TypeError)"

definition example_env :: "(string \<times> string, string, unit) platform" where
  "example_env =
     \<lparr>parse_url = map_of example_urls,
      to_string = example_to_string,
      location_origin = ''https://example.com'',
      fetchAsDocument = (\<lambda>log u. map_of example_pages (href u)),
      extractPageMetadata = (\<lambda>doc u.
         [''@type'' \<mapsto> JStr (fst doc), ''name'' \<mapsto> JStr (snd doc), ''url'' \<mapsto> JStr (href u)]),
      fromElement = (\<lambda>doc u r. ([href u], [])),
      dealer_markerFound = (\<lambda>store m d.
         (\<lparr>found = map (\<lambda>a. \<lparr>content = Raw a, artifact = a\<rparr>) store, lost = []\<rparr>, d))\<rparr>"

definition allow_all :: ShouldFetchArtifactsFromCallback where
  "allow_all = (\<lambda>u. Inr True)"

definition event_stub :: thing where
  "event_stub = [''@type'' \<mapsto> JStr ''Event'', ''url'' \<mapsto> JStr ''https://example.com/e1'']"

definition described_stub :: thing where
  "described_stub =
     [''@type'' \<mapsto> JStr ''Event'', ''url'' \<mapsto> JStr ''HTTPS://EXAMPLE.COM/e1'',
      ''description'' \<mapsto> JStr ''from the catalog'']"

definition mismatched_stub :: thing where
  "mismatched_stub = [''@type'' \<mapsto> JStr ''Event'', ''url'' \<mapsto> JStr ''https://example.com/p1'']"

text \<open>What \<^verbatim>\<open>JSON.parse\<close> makes of a record with a key \<^verbatim>\<open>__proto__\<close>: an own property.\<close>

definition proto_stub :: thing where
  "proto_stub =
     [''@type'' \<mapsto> JStr ''Event'', ''url'' \<mapsto> JStr ''https://example.com/e1'',
      ''__proto__'' \<mapsto> JStr ''x'']"

definition shadowing_stub :: thing where
  "shadowing_stub =
     [''@type'' \<mapsto> JStr ''Event'', ''url'' \<mapsto> JStr ''https://example.com/e1'',
      ''hasOwnProperty'' \<mapsto> JBool True]"

text \<open>A state with one object, at reference 0.\<close>

definition stub_state :: "thing \<Rightarrow> (string, unit) state" where
  "stub_state t = snd (alloc t (initial ()))"

definition qr_marker :: marker where
  "qr_marker = \<lparr>marker_type = ''qrcode'', marker_value = ''https://example.com/e1''\<rparr>"

definition e1_instance :: "nat \<Rightarrow> url" where
  "e1_instance n = \<lparr>uid = n, href = ''https://example.com/e1'', origin = ''https://example.com''\<rparr>"

section \<open>Auxiliary facts\<close>

text \<open>The gate in one equation: the URL instance is new, and only its counter changes.\<close>

lemma checkIsFetchableURL_eq:
  "checkIsFetchableURL env s pol st =
     (case parse_url env s of
        None \<Rightarrow> (None, st)
      | Some (h, og) \<Rightarrow>
          (if pol \<lparr>uid = next_url st, href = h, origin = og\<rparr> = Inr True
           then Some \<lparr>uid = next_url st, href = h, origin = og\<rparr> else None,
           st\<lparr>next_url := Suc (next_url st)\<rparr>))"
  by (auto simp: checkIsFetchableURL_def checkIsFetchableURL_try_def newURL_def
      split: option.splits sum.splits prod.splits)

lemmas ex_defs = example_env_def example_urls_def example_pages_def example_to_string_def
  allow_all_def event_stub_def described_stub_def mismatched_stub_def proto_stub_def
  shadowing_stub_def stub_state_def qr_marker_def e1_instance_def initial_def alloc_def
  tryExtractPageMetadata_def tryExtractPageMetadata_value_def checkIsFetchableURL_eq
  lookupOrFetch_def fetchDoc_def savePageMetadata_def get_property_def
  hasOwnProperty_callable_def

lemma lookupOrFetch_hit:
  assumes "pageMetadataCache st (uid u) = Some p"
  shows "lookupOrFetch env u st = (Some p, st)"
  using assms by (simp add: lookupOrFetch_def)

lemma lookupOrFetch_heap_frame:
  assumes "lookupOrFetch env u st = (res, st')" and "r < next_ref st"
  shows "heap st' r = heap st r"
  using assms
  by (auto simp: lookupOrFetch_def fetchDoc_def savePageMetadata_def alloc_def
      split: option.splits prod.splits)

lemma lookupOrFetch_cached:
  assumes "lookupOrFetch env u st = (Some p, st')"
  shows "pageMetadataCache st' (uid u) = Some p"
  using assms
  by (auto simp: lookupOrFetch_def fetchDoc_def savePageMetadata_def alloc_def
      split: option.splits prod.splits)

lemma lookupOrFetch_trace:
  "\<exists>rest. trace (snd (lookupOrFetch env u st)) = trace st @ rest"
  by (auto simp: lookupOrFetch_def fetchDoc_def savePageMetadata_def alloc_def
      split: option.splits prod.splits)

lemma tryExtract_heap_frame:
  assumes "tryExtractPageMetadata env s pol st = (res, st')" and "r < next_ref st"
  shows "heap st' r = heap st r"
proof (cases "checkIsFetchableURL env s pol st")
  case (Pair g st1)
  have n: "next_ref st1 = next_ref st" and h: "heap st1 = heap st"
    using Pair by (auto simp: checkIsFetchableURL_eq split: option.splits if_splits)
  show ?thesis
  proof (cases g)
    case None
    then show ?thesis using assms Pair h by (simp add: tryExtractPageMetadata_def)
  next
    case (Some u)
    then have "lookupOrFetch env u st1 = (res, st')"
      using assms Pair by (simp add: tryExtractPageMetadata_def)
    then show ?thesis using lookupOrFetch_heap_frame n h assms(2) by metis
  qed
qed

lemma tryExtract_cached:
  assumes "tryExtractPageMetadata env s pol st = (Some p, st')"
  shows "pageMetadataCache st' (next_url st) = Some p"
proof (cases "checkIsFetchableURL env s pol st")
  case (Pair g st1)
  show ?thesis
  proof (cases g)
    case None
    then show ?thesis using assms Pair by (simp add: tryExtractPageMetadata_def)
  next
    case (Some u)
    then have l: "lookupOrFetch env u st1 = (Some p, st')"
      using assms Pair by (simp add: tryExtractPageMetadata_def)
    have "uid u = next_url st"
      using Pair Some by (auto simp: checkIsFetchableURL_eq split: option.splits if_splits)
    then show ?thesis using lookupOrFetch_cached [OF l] by simp
  qed
qed

lemma tryExtract_trace:
  assumes "tryExtractPageMetadata env s pol st = (res, st')"
  shows "\<exists>rest. trace st' = trace st @ rest"
proof (cases "checkIsFetchableURL env s pol st")
  case (Pair g st1)
  have t: "trace st1 = trace st"
    using Pair by (auto simp: checkIsFetchableURL_eq split: option.splits if_splits)
  show ?thesis
  proof (cases g)
    case None
    then show ?thesis using assms Pair t by (simp add: tryExtractPageMetadata_def)
  next
    case (Some u)
    then show ?thesis using assms Pair t lookupOrFetch_trace [of env u st1]
      by (simp add: tryExtractPageMetadata_def)
  qed
qed

lemma tryExtract_value_cases:
  "tryExtractPageMetadata_value env v pol st = (None, st)
   \<or> (\<exists>s. tryExtractPageMetadata_value env v pol st = tryExtractPageMetadata env s pol st)"
  by (auto simp: tryExtractPageMetadata_value_def split: jsval.splits sum.splits)

lemma tryExtract_value_heap_frame:
  assumes "tryExtractPageMetadata_value env v pol st = (res, st')" and "r < next_ref st"
  shows "heap st' r = heap st r"
  using assms tryExtract_value_cases [of env v pol st] tryExtract_heap_frame by (metis prod.inject)

lemma tryExtract_value_cached:
  assumes "tryExtractPageMetadata_value env v pol st = (Some p, st')"
  shows "pageMetadataCache st' (next_url st) = Some p"
  using assms tryExtract_value_cases [of env v pol st] tryExtract_cached
  by (metis option.distinct(1) prod.inject)

lemma tryExtract_value_trace:
  assumes "tryExtractPageMetadata_value env v pol st = (res, st')"
  shows "\<exists>rest. trace st' = trace st @ rest"
  using assms tryExtract_value_cases [of env v pol st] tryExtract_trace
  by (metis append_Nil2 prod.inject)

lemma object_assign_frame:
  assumes "object_assign p r st = Inr st''"
  shows "trace st'' = trace st \<and> pageMetadataCache st'' = pageMetadataCache st
       \<and> next_url st'' = next_url st \<and> next_ref st'' = next_ref st
       \<and> artstore st'' = artstore st \<and> artdealer st'' = artdealer st
       \<and> (\<forall>x. x \<noteq> p \<longrightarrow> heap st'' x = heap st x)"
  using assms
  by (auto simp: object_assign_def Let_def split: option.splits if_splits sum.splits)

text \<open>What \<^verbatim>\<open>Object.assign\<close> leaves in the target under every key but \<^verbatim>\<open>__proto__\<close>.\<close>

lemma object_assign_props:
  assumes "object_assign p r st = Inr st''" and "k \<noteq> ''__proto__''"
  shows "props (heap st'' p) k = (props (heap st p) ++ props (heap st r)) k"
  using assms
  by (auto simp: object_assign_def Let_def map_add_def proto_setter_def
      split: option.splits if_splits sum.splits jsval.splits)

lemma enrichResult_trace:
  assumes "enrichResult env pol result st = Inr (result', st')"
  shows "\<exists>rest. trace st' = trace st @ rest"
proof (cases "content result")
  case Absent
  then show ?thesis using assms by (simp add: enrichResult_def)
next
  case (Raw s)
  then show ?thesis using assms
    by (auto simp: enrichResult_def dest: tryExtract_trace
        split: if_splits option.splits prod.splits)
next
  case (Structured r)
  then show ?thesis using assms
    by (auto simp: enrichResult_def dest: tryExtract_value_trace dest!: object_assign_frame
        split: if_splits option.splits prod.splits sum.splits)
qed

lemma attemptEnrich_trace:
  assumes "attemptEnrichContentWithPageMetadata env results pol st = Inr (results', st')"
  shows "\<exists>rest. trace st' = trace st @ rest"
  using assms
proof (induction results arbitrary: st results')
  case Nil
  then show ?case by simp
next
  case (Cons result results)
  obtain r1 st1 where e: "enrichResult env pol result st = Inr (r1, st1)"
    using Cons.prems by (auto split: sum.splits)
  obtain rs where a: "attemptEnrichContentWithPageMetadata env results pol st1 = Inr (rs, st')"
    using Cons.prems e by (auto split: sum.splits)
  obtain x where x: "trace st1 = trace st @ x" using enrichResult_trace [OF e] by blast
  obtain y where y: "trace st' = trace st1 @ y" using Cons.IH [OF a] by blast
  show ?case using x y by simp
qed

lemma saveArtifacts_eq: "saveArtifacts arts st = st\<lparr>artstore := artstore st @ arts\<rparr>"
  by (induction arts arbitrary: st) simp_all

lemma alloc_all_frame:
  "artstore (alloc_all ts st) = artstore st \<and> trace (alloc_all ts st) = trace st
   \<and> artdealer (alloc_all ts st) = artdealer st
   \<and> pageMetadataCache (alloc_all ts st) = pageMetadataCache st
   \<and> next_url (alloc_all ts st) = next_url st"
  by (induction ts arbitrary: st) (simp_all add: alloc_def)

lemma loadArtifactsFromHtmlUrl_frame:
  assumes "loadArtifactsFromHtmlUrl env u st = (arts, st')"
  shows "artstore st' = artstore st @ arts \<and> trace st' = trace st @ [Fetch u]
       \<and> artdealer st' = artdealer st"
  using assms
  by (auto simp: loadArtifactsFromHtmlUrl_def fetchDoc_def savePageMetadata_def alloc_def
      saveArtifacts_eq alloc_all_frame split: option.splits prod.splits)

subsection \<open>The lookup in \<^verbatim>\<open>tryExtractPageMetadata\<close> and the instances it is given\<close>

lemma cache_wf_initial: "cache_wf (initial d)"
  by (simp add: cache_wf_def initial_def)

lemma cache_wf_lookupOrFetch:
  assumes "cache_wf st" and "uid u < next_url st"
  shows "cache_wf (snd (lookupOrFetch env u st))"
  using assms
  by (auto simp: cache_wf_def lookupOrFetch_def fetchDoc_def savePageMetadata_def alloc_def
      less_Suc_eq split: option.splits prod.splits if_splits)

lemma cache_wf_tryExtract:
  assumes "cache_wf st"
  shows "cache_wf (snd (tryExtractPageMetadata env s pol st))"
proof (cases "checkIsFetchableURL env s pol st")
  case (Pair g st1)
  have w1: "cache_wf st1"
    using Pair assms
    by (auto simp: checkIsFetchableURL_eq cache_wf_def less_Suc_eq split: option.splits if_splits)
  show ?thesis
  proof (cases g)
    case None
    then show ?thesis using Pair w1 by (simp add: tryExtractPageMetadata_def)
  next
    case (Some u)
    have "uid u < next_url st1"
      using Pair Some by (auto simp: checkIsFetchableURL_eq split: option.splits if_splits)
    then show ?thesis using Pair Some w1 cache_wf_lookupOrFetch
      by (simp add: tryExtractPageMetadata_def)
  qed
qed

text \<open>
  The gate constructs the URL instance it returns, so in a state where every key of the cache
  is an instance constructed earlier the lookup finds nothing: every call whose candidate
  passes the gate calls the Document Fetcher.
\<close>

lemma tryExtract_always_fetches:
  assumes "cache_wf st"
    and "fst (checkIsFetchableURL env s pol st) = Some u"
  shows "trace (snd (tryExtractPageMetadata env s pol st)) = trace st @ [Fetch u]"
proof -
  obtain st1 where c: "checkIsFetchableURL env s pol st = (Some u, st1)"
    using assms(2) by (cases "checkIsFetchableURL env s pol st") simp
  have u: "uid u = next_url st" and t: "trace st1 = trace st"
    and k: "pageMetadataCache st1 = pageMetadataCache st"
    using c by (auto simp: checkIsFetchableURL_eq split: option.splits if_splits)
  have "pageMetadataCache st (next_url st) = None"
  proof (cases "pageMetadataCache st (next_url st)")
    case None
    then show ?thesis .
  next
    case (Some r)
    then have "next_url st < next_url st" using assms(1) unfolding cache_wf_def by blast
    then show ?thesis by simp
  qed
  then have "pageMetadataCache st1 (uid u) = None" using u k by simp
  then have "trace (snd (lookupOrFetch env u st1)) = trace st1 @ [Fetch u]"
    by (auto simp: lookupOrFetch_def fetchDoc_def savePageMetadata_def alloc_def
        split: option.splits prod.splits)
  then show ?thesis using c t by (simp add: tryExtractPageMetadata_def)
qed

section \<open>The enrichment step on a Thing with a url and no name\<close>

text \<open>
  What the merge does keep: when the step returns with a merge, every field of the original
  content but \<^verbatim>\<open>__proto__\<close> is in the merged record with the value it had in the original,
  and under every other key but \<^verbatim>\<open>__proto__\<close> the merged record has what the fetched
  metadata had.
\<close>

lemma enrich_merge_keeps_other_fields:
  assumes "content result = Structured r" and "r < next_ref st"
    and "get_property st r ''url'' = Some v" and "truthy v"
    and "hasOwnProperty_callable st r" and "props (heap st r) ''name'' = None"
    and "tryExtractPageMetadata_value env v pol st = (Some p, st')"
    and "get_property st' p ''@type'' = get_property st' r ''@type''"
    and "object_assign p r st' = Inr st''"
  shows "enrichResult env pol result st = Inr (result\<lparr>content := Structured p\<rparr>, st'')
       \<and> (\<forall>k x. k \<noteq> ''__proto__'' \<and> props (heap st r) k = Some x
             \<longrightarrow> props (heap st'' p) k = Some x)
       \<and> (\<forall>k. k \<noteq> ''__proto__'' \<and> props (heap st r) k = None
             \<longrightarrow> props (heap st'' p) k = props (heap st' p) k)"
proof -
  have fr: "heap st' r = heap st r"
    using tryExtract_value_heap_frame [OF assms(7) assms(2)] .
  have e: "enrichResult env pol result st = Inr (result\<lparr>content := Structured p\<rparr>, st'')"
    using assms by (simp add: enrichResult_def)
  have k: "\<And>k. k \<noteq> ''__proto__''
             \<Longrightarrow> props (heap st'' p) k = (props (heap st' p) ++ props (heap st r)) k"
    using object_assign_props [OF assms(9)] fr by simp
  show ?thesis using e k by (simp add: map_add_def)
qed

text \<open>
  Claim C1. A result's content is a Thing with a \<open>url\<close> field and no \<open>name\<close> field, metadata
  is obtained for it and the type tags match; the claim is that the merged record retains
  every field of the original content. The code at a record with a field \<^verbatim>\<open>__proto__\<close>, as
  \<^verbatim>\<open>JSON.parse\<close> creates it: \<^verbatim>\<open>Object.assign\<close> hands that field to the prototype setter
  of the fetched object, which ignores a string, and the merged record does not have the
  field that the original has.
\<close>

theorem enrich_merge_drops_own_proto_field:
  "\<exists>st''. enrichResult example_env allow_all \<lparr>content = Structured 0, artifact = ''a''\<rparr>
             (stub_state proto_stub)
      = Inr (\<lparr>content = Structured 1, artifact = ''a''\<rparr>, st'')
    \<and> props (heap (stub_state proto_stub) 0) ''url'' = Some (JStr ''https://example.com/e1'')
    \<and> props (heap (stub_state proto_stub) 0) ''name'' = None
    \<and> props (heap (stub_state proto_stub) 0) ''__proto__'' = Some (JStr ''x'')
    \<and> props (heap st'' 1) ''name'' = Some (JStr ''Launch'')
    \<and> props (heap st'' 1) ''__proto__'' = None
    \<and> proto (heap st'' 1) = ObjectPrototype"
  by (simp add: enrichResult_def ex_defs object_assign_def proto_setter_def)

text \<open>
  A record with a field \<^verbatim>\<open>hasOwnProperty\<close>: the test for the \<open>name\<close> field calls that field,
  and the step throws before anything is fetched.
\<close>

lemma enrich_shadowed_hasOwnProperty_throws:
  "enrichResult example_env allow_all \<lparr>content = Structured 0, artifact = ''a''\<rparr>
     (stub_state shadowing_stub) = Inl TypeError"
  by (simp add: enrichResult_def ex_defs)

text \<open>
  Claim C2. A result's content is a Thing \<open>r\<close> with a \<open>url\<close> field and no \<open>name\<close> field (the
  test of the code for it has returned true), metadata \<open>p\<close> is obtained for that url, and its
  \<open>@type\<close> is not strictly equal to the one of \<open>r\<close>. Then the merge is refused: the result is
  returned as it was, and the object \<open>r\<close> is what it was.
\<close>

theorem enrich_merge_refused_on_type_mismatch:
  assumes "content result = Structured r" and "r < next_ref st"
    and "get_property st r ''url'' = Some v" and "truthy v"
    and "hasOwnProperty_callable st r" and "props (heap st r) ''name'' = None"
    and "tryExtractPageMetadata_value env v pol st = (Some p, st')"
    and "get_property st' p ''@type'' \<noteq> get_property st' r ''@type''"
  shows "enrichResult env pol result st = Inr (result, st') \<and> heap st' r = heap st r"
proof -
  have fr: "heap st' r = heap st r"
    using tryExtract_value_heap_frame [OF assms(7) assms(2)] .
  show ?thesis using assms fr by (simp add: enrichResult_def)
qed

text \<open>The scenario of the specification: the page's metadata has the type \<^verbatim>\<open>Place\<close>.\<close>

theorem enrich_merge_refused_on_type_mismatch_witness:
  "\<exists>st'. enrichResult example_env allow_all \<lparr>content = Structured 0, artifact = ''a''\<rparr>
            (stub_state mismatched_stub)
       = Inr (\<lparr>content = Structured 0, artifact = ''a''\<rparr>, st')
     \<and> props (heap st' 0) = mismatched_stub
     \<and> props (heap st' 1) ''@type'' = Some (JStr ''Place'')"
proof -
  let ?st = "stub_state mismatched_stub"
  let ?r = "\<lparr>content = Structured 0, artifact = ''a''\<rparr>"
  let ?v = "JStr ''https://example.com/p1''"
  let ?st' = "snd (tryExtractPageMetadata_value example_env ?v allow_all ?st)"
  have h1: "content ?r = Structured 0" by simp
  have h2: "0 < next_ref ?st" by (simp add: ex_defs)
  have h3: "get_property ?st 0 ''url'' = Some ?v" by (simp add: ex_defs)
  have h4: "truthy ?v" by simp
  have h5: "hasOwnProperty_callable ?st 0" by (simp add: ex_defs)
  have h6: "props (heap ?st 0) ''name'' = None" by (simp add: ex_defs)
  have h7: "tryExtractPageMetadata_value example_env ?v allow_all ?st = (Some 1, ?st')"
    by (simp add: ex_defs)
  have h8: "get_property ?st' 1 ''@type'' \<noteq> get_property ?st' 0 ''@type''"
    by (simp add: ex_defs)
  have h9: "props (heap ?st 0) = mismatched_stub" by (simp add: ex_defs)
  have h10: "props (heap ?st' 1) ''@type'' = Some (JStr ''Place'')" by (simp add: ex_defs)
  show ?thesis
    using enrich_merge_refused_on_type_mismatch [OF h1 h2 h3 h4 h5 h6 h7 h8] h9 h10
    by simp
qed

text \<open>
  Claim C4. After a merge, the content of the result and the cache entry of the URL instance
  that \<^verbatim>\<open>tryExtractPageMetadata\<close> constructed are the same object \<open>p\<close>. The fields of the
  original content were written into that object: under every key but \<^verbatim>\<open>__proto__\<close> it
  holds the record it held before the merge overlaid with the fields of the original. A
  later lookup under that instance returns this object, without a fetch and without a change
  of state.
\<close>

theorem enrich_merge_aliases_cache_entry:
  assumes "content result = Structured r"
    and "get_property st r ''url'' = Some v" and "truthy v"
    and "props (heap st r) ''name'' = None"
    and "tryExtractPageMetadata_value env v pol st = (Some p, st')"
    and "get_property st' p ''@type'' = get_property st' r ''@type''"
    and "enrichResult env pol result st = Inr (result', st'')"
  shows "content result' = Structured p
       \<and> pageMetadataCache st'' (next_url st) = Some p
       \<and> (\<forall>k. k \<noteq> ''__proto__''
             \<longrightarrow> props (heap st'' p) k = (props (heap st' p) ++ props (heap st' r)) k)
       \<and> (\<forall>u. uid u = next_url st \<longrightarrow> lookupOrFetch env u st'' = (Some p, st''))"
proof -
  have o: "object_assign p r st' = Inr st''" and e: "result' = result\<lparr>content := Structured p\<rparr>"
    using assms by (auto simp: enrichResult_def split: if_splits sum.splits)
  have c: "pageMetadataCache st' (next_url st) = Some p"
    using tryExtract_value_cached [OF assms(5)] .
  have c': "pageMetadataCache st'' (next_url st) = Some p"
    using c object_assign_frame [OF o] by simp
  have k: "\<forall>k. k \<noteq> ''__proto__''
             \<longrightarrow> props (heap st'' p) k = (props (heap st' p) ++ props (heap st' r)) k"
    using object_assign_props [OF o] by blast
  show ?thesis using e c' k by (simp add: lookupOrFetch_def)
qed

text \<open>
  The catalog's record has a \<open>description\<close> that the page's metadata lacks, and writes its
  \<open>url\<close> in capitals where the page's metadata has the normalised address; after the
  enrichment the cache entry has the description and the catalog's spelling of the url.
\<close>

theorem enrich_merge_aliases_cache_entry_witness:
  "\<exists>result' st''.
      enrichResult example_env allow_all \<lparr>content = Structured 0, artifact = ''a''\<rparr>
        (stub_state described_stub) = Inr (result', st'')
    \<and> content result' = Structured 1
    \<and> pageMetadataCache st'' 0 = Some 1
    \<and> props (heap st'' 1) ''description'' = Some (JStr ''from the catalog'')
    \<and> props (heap st'' 1) ''url'' = Some (JStr ''HTTPS://EXAMPLE.COM/e1'')
    \<and> props (heap st'' 1) ''name'' = Some (JStr ''Launch'')
    \<and> extractPageMetadata example_env (''Event'', ''Launch'') (e1_instance 0)
        = [''@type'' \<mapsto> JStr ''Event'', ''name'' \<mapsto> JStr ''Launch'',
           ''url'' \<mapsto> JStr ''https://example.com/e1'']
    \<and> lookupOrFetch example_env (e1_instance 0) st'' = (Some 1, st'')"
proof -
  let ?st = "stub_state described_stub"
  let ?r = "\<lparr>content = Structured 0, artifact = ''a''\<rparr>"
  let ?v = "JStr ''HTTPS://EXAMPLE.COM/e1''"
  let ?st' = "snd (tryExtractPageMetadata_value example_env ?v allow_all ?st)"
  have "\<exists>x. enrichResult example_env allow_all ?r ?st = Inr x"
    by (simp add: enrichResult_def ex_defs object_assign_def)
  then obtain result' st'' where
    e: "enrichResult example_env allow_all ?r ?st = Inr (result', st'')"
    by auto
  have h1: "content ?r = Structured 0" by simp
  have h3: "get_property ?st 0 ''url'' = Some ?v" by (simp add: ex_defs)
  have h4: "truthy ?v" by simp
  have h5: "props (heap ?st 0) ''name'' = None" by (simp add: ex_defs)
  have h6: "tryExtractPageMetadata_value example_env ?v allow_all ?st = (Some 1, ?st')"
    by (simp add: ex_defs)
  have h7: "get_property ?st' 1 ''@type'' = get_property ?st' 0 ''@type''" by (simp add: ex_defs)
  have h8: "props (heap ?st' 0) = described_stub" by (simp add: ex_defs)
  have h8': "props (heap ?st' 1) ''name'' = Some (JStr ''Launch'')" by (simp add: ex_defs)
  have h9: "next_url ?st = 0" by (simp add: ex_defs)
  have h10: "extractPageMetadata example_env (''Event'', ''Launch'') (e1_instance 0)
        = [''@type'' \<mapsto> JStr ''Event'', ''name'' \<mapsto> JStr ''Launch'',
           ''url'' \<mapsto> JStr ''https://example.com/e1'']"
    by (simp add: ex_defs)
  have h11: "uid (e1_instance 0) = 0" by (simp add: ex_defs)
  show ?thesis
    using enrich_merge_aliases_cache_entry [OF h1 h3 h4 h5 h6 h7 e] e h8 h8' h9 h10 h11
    by (simp add: map_add_def described_stub_def)
qed

section \<open>The gate and the policy\<close>

text \<open>
  Claim C5. For every candidate string and every policy callback, the gate returns the parsed
  URL exactly when the string parses with no base and the callback returns true for the
  parsed URL. In every other case it returns null; in particular a throw inside the
  \<^verbatim>\<open>try\<close> block, by the constructor or by the callback, ends as null and not as an error.
\<close>

theorem checkIsFetchableURL_result:
  "fst (checkIsFetchableURL env s pol st) =
     (case parse_url env s of
        None \<Rightarrow> None
      | Some (h, og) \<Rightarrow>
          if pol \<lparr>uid = next_url st, href = h, origin = og\<rparr> = Inr True
          then Some \<lparr>uid = next_url st, href = h, origin = og\<rparr> else None)
   \<and> (\<forall>e. fst (checkIsFetchableURL_try env s pol st) = Inl e
          \<longrightarrow> fst (checkIsFetchableURL env s pol st) = None)"
  by (auto simp: checkIsFetchableURL_def checkIsFetchableURL_try_def newURL_def
      split: option.splits sum.splits prod.splits)

theorem checkIsFetchableURL_result_witness:
  "fst (checkIsFetchableURL_try example_env ''not a url'' allow_all (initial ())) = Inl TypeError
   \<and> fst (checkIsFetchableURL example_env ''not a url'' allow_all (initial ())) = None
   \<and> fst (checkIsFetchableURL example_env ''https://example.com/e1'' allow_all (initial ()))
       = Some (e1_instance 0)
   \<and> fst (checkIsFetchableURL example_env ''https://example.com/e1'' (\<lambda>u. Inr False) (initial ()))
       = None
   \<and> fst (checkIsFetchableURL example_env ''https://example.com/e1'' (\<lambda>u. Inl Thrown) (initial ()))
       = None"
proof -
  have t: "fst (checkIsFetchableURL_try example_env ''not a url'' allow_all (initial ()))
             = Inl TypeError"
    by (simp add: checkIsFetchableURL_try_def newURL_def example_env_def example_urls_def)
  show ?thesis
    using t
      checkIsFetchableURL_result [of example_env "''not a url''" allow_all "initial ()"]
      checkIsFetchableURL_result [of example_env "''https://example.com/e1''" allow_all "initial ()"]
      checkIsFetchableURL_result [of example_env "''https://example.com/e1''" "\<lambda>u. Inr False" "initial ()"]
      checkIsFetchableURL_result [of example_env "''https://example.com/e1''" "\<lambda>u. Inl Thrown" "initial ()"]
    by (simp add: example_env_def example_urls_def allow_all_def e1_instance_def initial_def)
qed

text \<open>
  Claim C10. With no policy argument the normalized callback allows a URL exactly when its
  origin equals \<^verbatim>\<open>window.location.origin\<close>; so the gate under the default policy returns the
  parsed URL when its origin is the running one, and null for every other candidate.
\<close>

theorem normalizeShouldFetchFn_default_same_origin:
  "normalizeShouldFetchFn env NoPolicy u = Inr (origin u = location_origin env)
   \<and> fst (checkIsFetchableURL env s (normalizeShouldFetchFn env NoPolicy) st) =
       (case parse_url env s of
          None \<Rightarrow> None
        | Some (h, og) \<Rightarrow>
            if og = location_origin env
            then Some \<lparr>uid = next_url st, href = h, origin = og\<rparr> else None)"
  by (simp add: checkIsFetchableURL_eq normalizeShouldFetchFn_def split: option.splits)

theorem normalizeShouldFetchFn_default_same_origin_witness:
  "fst (checkIsFetchableURL example_env ''https://example.com/e1''
          (normalizeShouldFetchFn example_env NoPolicy) (initial ())) = Some (e1_instance 0)
   \<and> fst (checkIsFetchableURL example_env ''https://other.example/x''
          (normalizeShouldFetchFn example_env NoPolicy) (initial ())) = None"
  using
    normalizeShouldFetchFn_default_same_origin
      [of example_env "e1_instance 0" "''https://example.com/e1''" "initial ()"]
    normalizeShouldFetchFn_default_same_origin
      [of example_env "e1_instance 0" "''https://other.example/x''" "initial ()"]
  by (simp add: example_env_def example_urls_def e1_instance_def initial_def)

section \<open>The coordinator's loading of a page\<close>

text \<open>
  Claim C8. For every URL, when the Document Fetcher produces no document,
  \<^verbatim>\<open>loadArtifactsFromHtmlUrl\<close> returns the empty list, and the only change of state is the
  logged fetch: the page metadata cache and the artifact store are what they were.
\<close>

theorem loadArtifactsFromHtmlUrl_fetch_failure:
  assumes "fetchAsDocument env (trace st) u = None"
  shows "loadArtifactsFromHtmlUrl env u st = ([], st\<lparr>trace := trace st @ [Fetch u]\<rparr>)
       \<and> pageMetadataCache (snd (loadArtifactsFromHtmlUrl env u st)) = pageMetadataCache st
       \<and> artstore (snd (loadArtifactsFromHtmlUrl env u st)) = artstore st"
  using assms by (simp add: loadArtifactsFromHtmlUrl_def fetchDoc_def)

theorem loadArtifactsFromHtmlUrl_fetch_failure_witness:
  "fst (loadArtifactsFromHtmlUrl example_env
          \<lparr>uid = 0, href = ''https://example.com/gone'', origin = ''https://example.com''\<rparr>
          (initial ())) = []
   \<and> pageMetadataCache (snd (loadArtifactsFromHtmlUrl example_env
          \<lparr>uid = 0, href = ''https://example.com/gone'', origin = ''https://example.com''\<rparr>
          (initial ()))) = Map.empty
   \<and> artstore (snd (loadArtifactsFromHtmlUrl example_env
          \<lparr>uid = 0, href = ''https://example.com/gone'', origin = ''https://example.com''\<rparr>
          (initial ()))) = []"
proof -
  let ?u = "\<lparr>uid = 0, href = ''https://example.com/gone'', origin = ''https://example.com''\<rparr>"
  have h: "fetchAsDocument example_env (trace (initial ())) ?u = None"
    by (simp add: example_env_def example_pages_def)
  show ?thesis
    using loadArtifactsFromHtmlUrl_fetch_failure [OF h] by (simp add: initial_def)
qed

section \<open>The enrichment step on a string\<close>

text \<open>
  Claim C9. A result's content is a string, and the platform's URL constructor rejects the
  empty string. Then the enrichment step replaces the content by the fetched Thing exactly
  when \<^verbatim>\<open>tryExtractPageMetadata\<close> on that string yields one, and returns the result as it was
  when it yields null. It yields null when the string does not parse, when the policy does
  not return true, and when the URL instance is no key of the cache and the fetch fails.
\<close>

theorem enrich_string_content:
  assumes "content result = Raw s" and "parse_url env [] = None"
  shows "enrichResult env pol result st =
           Inr (case tryExtractPageMetadata env s pol st of
                  (Some p, st') \<Rightarrow> (result\<lparr>content := Structured p\<rparr>, st')
                | (None, st') \<Rightarrow> (result, st'))
       \<and> (parse_url env s = None \<longrightarrow> fst (tryExtractPageMetadata env s pol st) = None)
       \<and> (\<forall>h og. parse_url env s = Some (h, og)
             \<and> pol \<lparr>uid = next_url st, href = h, origin = og\<rparr> \<noteq> Inr True
             \<longrightarrow> fst (tryExtractPageMetadata env s pol st) = None)
       \<and> (\<forall>h og. parse_url env s = Some (h, og)
             \<and> pageMetadataCache st (next_url st) = None
             \<and> fetchAsDocument env (trace st) \<lparr>uid = next_url st, href = h, origin = og\<rparr> = None
             \<longrightarrow> fst (tryExtractPageMetadata env s pol st) = None)"
proof -
  have a: "enrichResult env pol result st =
           Inr (case tryExtractPageMetadata env s pol st of
                  (Some p, st') \<Rightarrow> (result\<lparr>content := Structured p\<rparr>, st')
                | (None, st') \<Rightarrow> (result, st'))"
  proof (cases "s = []")
    case True
    then have "tryExtractPageMetadata env s pol st = (None, st)"
      using assms(2) by (simp add: tryExtractPageMetadata_def checkIsFetchableURL_eq)
    then show ?thesis using assms(1) True by (simp add: enrichResult_def)
  next
    case False
    then show ?thesis using assms(1)
      by (simp add: enrichResult_def split: prod.splits option.splits)
  qed
  have b: "parse_url env s = None \<longrightarrow> fst (tryExtractPageMetadata env s pol st) = None"
    by (simp add: tryExtractPageMetadata_def checkIsFetchableURL_eq)
  have c: "\<forall>h og. parse_url env s = Some (h, og)
             \<and> pol \<lparr>uid = next_url st, href = h, origin = og\<rparr> \<noteq> Inr True
             \<longrightarrow> fst (tryExtractPageMetadata env s pol st) = None"
    by (simp add: tryExtractPageMetadata_def checkIsFetchableURL_eq)
  have d: "\<forall>h og. parse_url env s = Some (h, og)
             \<and> pageMetadataCache st (next_url st) = None
             \<and> fetchAsDocument env (trace st) \<lparr>uid = next_url st, href = h, origin = og\<rparr> = None
             \<longrightarrow> fst (tryExtractPageMetadata env s pol st) = None"
    by (simp add: tryExtractPageMetadata_def checkIsFetchableURL_eq lookupOrFetch_def fetchDoc_def)
  show ?thesis using a b c d by blast
qed

text \<open>
  The scenario of the specification, \<^verbatim>\<open>"not a url"\<close>, then a string with a page behind it,
  and a string whose fetch fails.
\<close>

theorem enrich_string_content_witness:
  "map_sum id fst (enrichResult example_env allow_all
          \<lparr>content = Raw ''not a url'', artifact = ''a''\<rparr> (initial ()))
       = Inr \<lparr>content = Raw ''not a url'', artifact = ''a''\<rparr>
   \<and> map_sum id fst (enrichResult example_env allow_all
          \<lparr>content = Raw ''https://example.com/e1'', artifact = ''a''\<rparr> (initial ()))
       = Inr \<lparr>content = Structured 0, artifact = ''a''\<rparr>
   \<and> map_sum id fst (enrichResult example_env allow_all
          \<lparr>content = Raw ''https://example.com/gone'', artifact = ''a''\<rparr> (initial ()))
       = Inr \<lparr>content = Raw ''https://example.com/gone'', artifact = ''a''\<rparr>"
proof -
  have h0: "parse_url example_env [] = None"
    by (simp add: example_env_def example_urls_def)
  have h1: "content \<lparr>content = Raw ''not a url'', artifact = ''a''\<rparr> = Raw ''not a url''"
    by simp
  have h2: "content \<lparr>content = Raw ''https://example.com/e1'', artifact = ''a''\<rparr>
              = Raw ''https://example.com/e1''"
    by simp
  have h3: "content \<lparr>content = Raw ''https://example.com/gone'', artifact = ''a''\<rparr>
              = Raw ''https://example.com/gone''"
    by simp
  have t1: "tryExtractPageMetadata example_env ''not a url'' allow_all (initial ())
              = (None, initial ())"
    by (simp add: ex_defs)
  have t2: "fst (tryExtractPageMetadata example_env ''https://example.com/e1'' allow_all
              (initial ())) = Some 0"
    by (simp add: ex_defs)
  have t3: "fst (tryExtractPageMetadata example_env ''https://example.com/gone'' allow_all
              (initial ())) = None"
    by (simp add: ex_defs)
  show ?thesis
    using enrich_string_content [OF h1 h0, of allow_all "initial ()"]
      enrich_string_content [OF h2 h0, of allow_all "initial ()"]
      enrich_string_content [OF h3 h0, of allow_all "initial ()"]
      t1 t2 t3
    by (auto split: prod.splits option.splits)
qed

section \<open>The cache and the identity of URL instances\<close>

text \<open>
  Claim C6. The cache is keyed by the identity of the URL instance. For two distinct
  instances with the same string, an entry stored under the first is not found under the
  second: the second is still no key of the cache, and resolving it calls the Document
  Fetcher for itself.
\<close>

theorem pageMetadataCache_keyed_by_instance:
  assumes "uid u2 \<noteq> uid u1" and "href u2 = href u1"
    and "pageMetadataCache st (uid u2) = None"
    and "savePageMetadata env doc u1 st = (p, st1)"
  shows "pageMetadataCache st1 (uid u1) = Some p
       \<and> pageMetadataCache st1 (uid u2) = None
       \<and> trace (snd (lookupOrFetch env u2 st1)) = trace st1 @ [Fetch u2]"
  using assms
  by (auto simp: lookupOrFetch_def fetchDoc_def savePageMetadata_def alloc_def
      split: option.splits prod.splits)

theorem pageMetadataCache_keyed_by_instance_witness:
  "pageMetadataCache
     (snd (savePageMetadata example_env (''Event'', ''Launch'') (e1_instance 0) (initial ())))
     (uid (e1_instance 0)) = Some 0
   \<and> pageMetadataCache
     (snd (savePageMetadata example_env (''Event'', ''Launch'') (e1_instance 0) (initial ())))
     (uid (e1_instance 1)) = None
   \<and> trace (snd (lookupOrFetch example_env (e1_instance 1)
       (snd (savePageMetadata example_env (''Event'', ''Launch'') (e1_instance 0) (initial ())))))
     = [Fetch (e1_instance 1)]"
proof -
  let ?st1 = "snd (savePageMetadata example_env (''Event'', ''Launch'') (e1_instance 0) (initial ()))"
  have h1: "uid (e1_instance 1) \<noteq> uid (e1_instance 0)" by (simp add: e1_instance_def)
  have h2: "href (e1_instance 1) = href (e1_instance 0)" by (simp add: e1_instance_def)
  have h3: "pageMetadataCache (initial ()) (uid (e1_instance 1)) = None"
    by (simp add: initial_def)
  have h4: "savePageMetadata example_env (''Event'', ''Launch'') (e1_instance 0) (initial ())
              = (0, ?st1)"
    by (simp add: savePageMetadata_def alloc_def initial_def)
  have h5: "trace ?st1 = []"
    by (simp add: savePageMetadata_def alloc_def initial_def)
  show ?thesis
    using pageMetadataCache_keyed_by_instance [OF h1 h2 h3 h4] h5 by simp
qed



section \<open>A marker that is a URL\<close>

text \<open>
  Claim C7. In \<^verbatim>\<open>markerFound\<close>, when the marker's value passes the gate under the normalized
  policy, the page is loaded first and the dealer is asked afterwards: at the dealer's call
  the log has continued with the fetch of the page and then that call, and the dealer
  answers from the store with the artifacts that \<^verbatim>\<open>loadArtifactsFromHtmlUrl\<close> returned added
  to it. The found list of the dealer's delta then goes through the enrichment step: when
  the step returns, the delta is returned with the enriched list in its place, and when the
  step throws, the call fails with that error.
\<close>

theorem markerFound_indexes_before_dealer:
  assumes g: "fst (checkIsFetchableURL env (marker_value m) (normalizeShouldFetchFn env parg) st)
                = Some u"
  shows "\<exists>arts results d st3.
      arts = fst (loadArtifactsFromHtmlUrl env u
               (snd (checkIsFetchableURL env (marker_value m) (normalizeShouldFetchFn env parg) st)))
    \<and> dealer_markerFound env (artstore st @ arts) m (artdealer st) = (results, d)
    \<and> artstore st3 = artstore st @ arts
    \<and> trace st3 = trace st @ [Fetch u, DealerMarkerFound m (artstore st @ arts)]
    \<and> markerFound env m parg st =
        (case attemptEnrichContentWithPageMetadata env (found results)
                (normalizeShouldFetchFn env parg) st3 of
           Inl e \<Rightarrow> Inl e
         | Inr (found', st4) \<Rightarrow> Inr (results\<lparr>found := found'\<rparr>, st4))
    \<and> (\<forall>found' st4.
          attemptEnrichContentWithPageMetadata env (found results)
            (normalizeShouldFetchFn env parg) st3 = Inr (found', st4)
          \<longrightarrow> (\<exists>rest. trace st4
                 = trace st @ [Fetch u, DealerMarkerFound m (artstore st @ arts)] @ rest))"
proof -
  let ?pol = "normalizeShouldFetchFn env parg"
  obtain st1 where c: "checkIsFetchableURL env (marker_value m) ?pol st = (Some u, st1)"
    using g by (cases "checkIsFetchableURL env (marker_value m) ?pol st") simp
  have f1: "artstore st1 = artstore st \<and> trace st1 = trace st \<and> artdealer st1 = artdealer st"
    using c by (auto simp: checkIsFetchableURL_eq split: option.splits if_splits)
  obtain arts st2 where l: "loadArtifactsFromHtmlUrl env u st1 = (arts, st2)"
    by (cases "loadArtifactsFromHtmlUrl env u st1")
  have f2: "artstore st2 = artstore st @ arts \<and> trace st2 = trace st @ [Fetch u]
            \<and> artdealer st2 = artdealer st"
    using loadArtifactsFromHtmlUrl_frame [OF l] f1 by simp
  obtain results d where
    q: "dealer_markerFound env (artstore st @ arts) m (artdealer st) = (results, d)"
    by (cases "dealer_markerFound env (artstore st @ arts) m (artdealer st)")
  let ?st3 = "st2\<lparr>artdealer := d, trace := trace st2 @ [DealerMarkerFound m (artstore st2)]\<rparr>"
  have a: "artdealer_markerFound env m st2 = (results, ?st3)"
    using q f2 by (simp add: artdealer_markerFound_def)
  have mf: "markerFound env m parg st =
        (case attemptEnrichContentWithPageMetadata env (found results) ?pol ?st3 of
           Inl e \<Rightarrow> Inl e
         | Inr (found', st4) \<Rightarrow> Inr (results\<lparr>found := found'\<rparr>, st4))"
    using c l a by (simp add: markerFound_def)
  have t3: "trace ?st3 = trace st @ [Fetch u, DealerMarkerFound m (artstore st @ arts)]"
    using f2 by simp
  have t4: "\<forall>found' st4.
          attemptEnrichContentWithPageMetadata env (found results) ?pol ?st3 = Inr (found', st4)
          \<longrightarrow> (\<exists>rest. trace st4
                 = trace st @ [Fetch u, DealerMarkerFound m (artstore st @ arts)] @ rest)"
  proof (intro allI impI)
    fix found' st4
    assume "attemptEnrichContentWithPageMetadata env (found results) ?pol ?st3 = Inr (found', st4)"
    then obtain rest where "trace st4 = trace ?st3 @ rest"
      using attemptEnrich_trace by blast
    then show "\<exists>rest. trace st4
                 = trace st @ [Fetch u, DealerMarkerFound m (artstore st @ arts)] @ rest"
      using t3 by simp
  qed
  have s3: "artstore ?st3 = artstore st @ arts" using f2 by simp
  show ?thesis
    apply (rule exI [of _ arts])
    apply (rule exI [of _ results])
    apply (rule exI [of _ d])
    apply (rule exI [of _ ?st3])
    apply (insert c l q s3 t3 mf t4)
    apply simp
    done
qed

text \<open>
  A scanned code with the address of a page of the running origin: the page's artifact is in
  the store when the dealer is asked, and the dealer reports it.
\<close>

theorem markerFound_indexes_before_dealer_witness:
  "fst (checkIsFetchableURL example_env (marker_value qr_marker)
          (normalizeShouldFetchFn example_env NoPolicy) (initial ())) = Some (e1_instance 0)
   \<and> map_sum id fst (markerFound example_env qr_marker NoPolicy (initial ())) =
       Inr \<lparr>found = [\<lparr>content = Structured 1, artifact = ''https://example.com/e1''\<rparr>], lost = []\<rparr>
   \<and> map_sum id (\<lambda>x. trace (snd x)) (markerFound example_env qr_marker NoPolicy (initial ())) =
       Inr [Fetch (e1_instance 0),
            DealerMarkerFound qr_marker [''https://example.com/e1''],
            Fetch (e1_instance 1)]"
proof -
  have g: "fst (checkIsFetchableURL example_env (marker_value qr_marker)
             (normalizeShouldFetchFn example_env NoPolicy) (initial ())) = Some (e1_instance 0)"
    by (simp add: ex_defs normalizeShouldFetchFn_def)
  have ev: "map_sum id fst (markerFound example_env qr_marker NoPolicy (initial ())) =
       Inr \<lparr>found = [\<lparr>content = Structured 1, artifact = ''https://example.com/e1''\<rparr>], lost = []\<rparr>
   \<and> map_sum id (\<lambda>x. trace (snd x)) (markerFound example_env qr_marker NoPolicy (initial ())) =
       Inr [Fetch (e1_instance 0),
            DealerMarkerFound qr_marker [''https://example.com/e1''],
            Fetch (e1_instance 1)]"
    by (simp add: ex_defs markerFound_def normalizeShouldFetchFn_def
        loadArtifactsFromHtmlUrl_def artdealer_markerFound_def enrichResult_def)
  show ?thesis
    using markerFound_indexes_before_dealer [OF g] g ev by simp
qed

end
